theory Spec2Isabelle
  imports Main "HOL-Library.Word"
begin

unbundle bit_operations_syntax

section \<open>The tag side of the PolyPoint ranging protocol (dw1000\_tag.c)\<close>

text \<open>
  The firmware keeps the protocol state in file-scope variables and is driven by three
  kinds of callbacks: the interval timer, the radio's transmit callback and the radio's
  receive callback. The embedding keeps those variables in one record, passes it through
  every function, and appends every call into the radio driver or the timer service to a
  trace, in program order.
\<close>

subsection \<open>Data\<close>

type_synonym uint8_t = "8 word"
type_synonym uint16_t = "16 word"
type_synonym uint32_t = "32 word"
type_synonym uint64_t = "64 word"

text \<open>\<^verbatim>\<open>tag_state_e\<close>: the five states the source file names.\<close>

datatype tag_state_e =
    TSTATE_IDLE
  | TSTATE_BROADCASTS
  | TSTATE_TRANSITION_TO_ANC_FINAL
  | TSTATE_LISTENING
  | TSTATE_CALCULATE_RANGE

text \<open>
  The \<^verbatim>\<open>event\<close> field of \<^verbatim>\<open>dwt_callback_data_t\<close>: the signals the source
  compares against, and every other value the driver may report.
\<close>

datatype dwt_event =
    DWT_SIG_RX_OKAY
  | DWT_SIG_TX_DONE
  | DWT_SIG_RX_PHR_ERROR
  | DWT_SIG_RX_ERROR
  | DWT_SIG_RX_SYNCLOSS
  | DWT_SIG_RX_SFDTIMEOUT
  | DWT_SIG_RX_PTOTIMEOUT
  | DWT_SIG_OTHER nat

record dwt_callback_data_t =
  event :: dwt_event
  datalength :: uint16_t

text \<open>The two functions the source hands to \<^verbatim>\<open>timer_start\<close>.\<close>

datatype timer_callback =
    Ranging_broadcast_subsequence_task
  | Ranging_listening_window_task

text \<open>
  Calls that leave the file, with the arguments the source passes. \<^verbatim>\<open>Dwt_starttx\<close>
  carries whether \<^verbatim>\<open>DWT_RESPONSE_EXPECTED\<close> is or-ed to \<^verbatim>\<open>DWT_START_TX_DELAYED\<close>;
  \<^verbatim>\<open>Dwt_writetxdata\<close> carries the length and the two packet fields that change
  between sends (sequence number, subsequence).
\<close>

datatype hw_call =
    Timer_start nat timer_callback
  | Timer_stop
  | Dwt_readrxtimestamp
  | Dwt_readrxdata nat
  | Set_ranging_listening_window_settings uint8_t
  | Set_ranging_broadcast_subsequence_settings uint8_t
  | Dwt_forcetrxoff
  | Dwt_writetxfctrl uint16_t
  | Dwt_setdelayedtrxtime uint32_t
  | Dwt_writetxdata uint16_t uint8_t uint8_t
  | Dwt_setrxaftertxdelay nat
  | Dwt_starttx bool
  | Dwt_settxantennadelay
  | Calculate_ranges

text \<open>
  The constants and macros of the headers the file includes (\<^verbatim>\<open>dw1000.h\<close>,
  \<^verbatim>\<open>dw1000_tag.h\<close>, \<^verbatim>\<open>firmware.h\<close>) are parameters of the model.
  \<^verbatim>\<open>sizeof_pp_tag_poll\<close> is \<^verbatim>\<open>sizeof(struct pp_tag_poll)\<close>. The macro
  \<^verbatim>\<open>DW_DELAY_FROM_PKT_LEN\<close> is taken to yield an integer; its sum with the clock reading
  is stored in a \<^verbatim>\<open>uint32_t\<close>, so only its value modulo \<open>2^32\<close> matters. The arguments
  \<^verbatim>\<open>TAG\<close> and \<^verbatim>\<open>FALSE\<close> of the two settings functions are the same at every call
  and are not recorded.
\<close>

record config =
  NUM_RANGING_BROADCASTS :: nat
  NUM_RANGING_LISTENING_WINDOWS :: nat
  MAX_NUM_ANCHOR_RESPONSES :: nat
  DW1000_TAG_MAX_RX_PKT_LEN :: nat
  MSG_TYPE_PP_NOSLOTS_TAG_POLL :: uint8_t
  MSG_TYPE_PP_NOSLOTS_ANC_FINAL :: uint8_t
  RANGING_BROADCASTS_PERIOD_US :: nat
  RANGING_LISTENING_WINDOW_US :: nat
  sizeof_pp_tag_poll :: uint16_t
  DW_DELAY_FROM_PKT_LEN :: "uint16_t \<Rightarrow> uint32_t"

text \<open>
  Modelled from the spec: \<^verbatim>\<open>struct pp_anc_final\<close>, declared in a header that is not
  part of the source file. The receive buffer is read through this struct: the anchor's
  source address in the header, the message-type byte, the per-broadcast time-of-arrival
  values and the anchor's own 32-bit transmit time.
\<close>

record pp_anc_final =
  header_sourceAddr :: "uint8_t list"
  message_type :: uint8_t
  TOAs :: "uint64_t list"
  dw_time_sent :: uint32_t

text \<open>\<^verbatim>\<open>anchor_response_times_t\<close>: the four fields the receive callback fills.\<close>

record anchor_response_times_t =
  anchor_addr :: "uint8_t list"
  tag_poll_TOAs :: "uint64_t list"
  anc_final_tx_timestamp :: uint64_t
  anc_final_rx_timestamp :: uint64_t

text \<open>
  The file-scope variables (their leading underscore dropped), the two fields of
  \<^verbatim>\<open>pp_tag_poll_pkt\<close> that \<^verbatim>\<open>send_poll\<close> rewrites, the state of the interval timer
  (the period and callback it is armed with, if any), and the trace of outside calls.
\<close>

record tag =
  tag_state :: tag_state_e
  ranging_broadcast_ss_num :: uint8_t
  ranging_listening_window_num :: uint8_t
  ranging_broadcast_ss_send_times :: "uint64_t list"
  anchor_response_count :: uint8_t
  anchor_response_times :: "anchor_response_times_t list"
  pkt_seqNum :: uint8_t
  pkt_subsequence :: uint8_t
  ranging_broadcast_timer :: "(nat \<times> timer_callback) option"
  hw_trace :: "hw_call list"

text \<open>An array access the C code makes outside the array has no defined result.\<close>

datatype fault = Out_of_bounds

text \<open>The static initialisers: everything zero, state idle, no timer armed.\<close>

definition zero_response :: "config \<Rightarrow> anchor_response_times_t" where
  "zero_response cfg =
     \<lparr>anchor_addr = replicate 8 0,
      tag_poll_TOAs = replicate (NUM_RANGING_BROADCASTS cfg) 0,
      anc_final_tx_timestamp = 0, anc_final_rx_timestamp = 0\<rparr>"

definition initial_tag :: "config \<Rightarrow> tag" where
  "initial_tag cfg =
     \<lparr>tag_state = TSTATE_IDLE,
      ranging_broadcast_ss_num = 0,
      ranging_listening_window_num = 0,
      ranging_broadcast_ss_send_times = replicate (NUM_RANGING_BROADCASTS cfg) 0,
      anchor_response_count = 0,
      anchor_response_times = replicate (MAX_NUM_ANCHOR_RESPONSES cfg) (zero_response cfg),
      pkt_seqNum = 0,
      pkt_subsequence = 0,
      ranging_broadcast_timer = None,
      hw_trace = []\<rparr>"

subsection \<open>The timer service and the trace\<close>

definition hw :: "hw_call \<Rightarrow> tag \<Rightarrow> tag" where
  "hw c s = s\<lparr>hw_trace := hw_trace s @ [c]\<rparr>"

text \<open>
  Modelled from the spec: \<^verbatim>\<open>timer_start\<close> and \<^verbatim>\<open>timer_stop\<close> of the interval timer
  service (\<^verbatim>\<open>timer.h\<close>), a repeating timer that calls the given function once per period
  until it is stopped.
\<close>

definition timer_start :: "nat \<Rightarrow> timer_callback \<Rightarrow> tag \<Rightarrow> tag" where
  "timer_start period cb s =
     hw (Timer_start period cb) (s\<lparr>ranging_broadcast_timer := Some (period, cb)\<rparr>)"

definition timer_stop :: "tag \<Rightarrow> tag" where
  "timer_stop s = hw Timer_stop (s\<lparr>ranging_broadcast_timer := None\<rparr>)"

subsection \<open>The functions of the file\<close>

text \<open>\<^verbatim>\<open>dw1000_tag_start_ranging_event\<close> (lines 110-119).\<close>

definition dw1000_tag_start_ranging_event :: "config \<Rightarrow> tag \<Rightarrow> tag" where
  "dw1000_tag_start_ranging_event cfg s =
     timer_start (RANGING_BROADCASTS_PERIOD_US cfg) Ranging_broadcast_subsequence_task
       (s\<lparr>tag_state := TSTATE_BROADCASTS,
          ranging_broadcast_ss_send_times := replicate (NUM_RANGING_BROADCASTS cfg) 0,
          ranging_broadcast_ss_num := 0\<rparr>)"

text \<open>\<^verbatim>\<open>dw1000_tag_txcallback\<close> (lines 122-152).\<close>

definition dw1000_tag_txcallback :: "config \<Rightarrow> dwt_callback_data_t \<Rightarrow> tag \<Rightarrow> tag" where
  "dw1000_tag_txcallback cfg d s =
     (if event d = DWT_SIG_TX_DONE then
        (if tag_state s = TSTATE_TRANSITION_TO_ANC_FINAL then
           timer_start (RANGING_LISTENING_WINDOW_US cfg) Ranging_listening_window_task
             (s\<lparr>tag_state := TSTATE_LISTENING,
                ranging_listening_window_num := 0,
                anchor_response_count := 0\<rparr>)
         else s)
      else timer_stop s)"

text \<open>
  \<^verbatim>\<open>dw1000_tag_rxcallback\<close> (lines 155-218). \<open>rx_ts\<close> is the value of
  \<^verbatim>\<open>DW_TIMESTAMP_TO_UINT64(buf)\<close> after \<^verbatim>\<open>dwt_readrxtimestamp\<close>, and \<open>buf\<close> is the
  buffer after \<^verbatim>\<open>dwt_readrxdata\<close>, seen through \<^verbatim>\<open>struct pp_anc_final\<close>. The
  comparison with \<^verbatim>\<open>MAX_NUM_ANCHOR_RESPONSES\<close> is made on the promoted integers.
\<close>

definition store_anc_final :: "uint64_t \<Rightarrow> pp_anc_final \<Rightarrow> anchor_response_times_t \<Rightarrow> anchor_response_times_t" where
  "store_anc_final rx_ts buf r =
     r\<lparr>anchor_addr := take 8 (header_sourceAddr buf),
       tag_poll_TOAs := TOAs buf,
       anc_final_tx_timestamp := push_bit 8 (ucast (dw_time_sent buf) :: uint64_t),
       anc_final_rx_timestamp := rx_ts\<rparr>"

definition rx_error_event :: "dwt_event \<Rightarrow> bool" where
  "rx_error_event e =
     (e = DWT_SIG_RX_PHR_ERROR \<or> e = DWT_SIG_RX_ERROR \<or> e = DWT_SIG_RX_SYNCLOSS \<or>
      e = DWT_SIG_RX_SFDTIMEOUT \<or> e = DWT_SIG_RX_PTOTIMEOUT)"

definition dw1000_tag_rxcallback ::
  "config \<Rightarrow> dwt_callback_data_t \<Rightarrow> uint64_t \<Rightarrow> pp_anc_final \<Rightarrow> tag \<Rightarrow> tag" where
  "dw1000_tag_rxcallback cfg rxd rx_ts buf s =
     (if event rxd = DWT_SIG_RX_OKAY then
        (let s1 = hw Dwt_readrxtimestamp s;
             s2 = hw (Dwt_readrxdata (min (DW1000_TAG_MAX_RX_PKT_LEN cfg) (unat (datalength rxd)))) s1
         in if message_type buf = MSG_TYPE_PP_NOSLOTS_ANC_FINAL cfg then
              (if MAX_NUM_ANCHOR_RESPONSES cfg \<le> unat (anchor_response_count s2) then s2
               else
                 s2\<lparr>anchor_response_times :=
                      (anchor_response_times s2)
                        [unat (anchor_response_count s2) :=
                           store_anc_final rx_ts buf
                             (anchor_response_times s2 ! unat (anchor_response_count s2))],
                    anchor_response_count := anchor_response_count s2 + 1\<rparr>)
            else s2)
      else if rx_error_event (event rxd) then
        hw (Set_ranging_listening_window_settings (ranging_listening_window_num s)) s
      else s)"

text \<open>
  \<^verbatim>\<open>send_poll\<close> (lines 223-260), in two halves. \<open>send_poll_setup\<close> is lines 227-246:
  it stamps the packet, computes the delayed send time from the clock reading
  \<open>systime\<close> (what \<^verbatim>\<open>dwt_readsystimestamphi32\<close> returns), programs it and stores it in
  the slot of the current subsequence. \<open>send_poll_start\<close> is lines 249-259: it starts
  the transmission. The store at line 243 has no bounds check in C.
\<close>

definition delay_time :: "config \<Rightarrow> uint32_t \<Rightarrow> uint32_t" where
  "delay_time cfg systime =
     (systime + DW_DELAY_FROM_PKT_LEN cfg (sizeof_pp_tag_poll cfg)) AND 0xFFFFFFFE"

definition send_time :: "config \<Rightarrow> uint32_t \<Rightarrow> uint64_t" where
  "send_time cfg systime = push_bit 8 (ucast (delay_time cfg systime) :: uint64_t)"

definition last_broadcast :: "config \<Rightarrow> tag \<Rightarrow> bool" where
  "last_broadcast cfg s =
     (uint (ranging_broadcast_ss_num s) = int (NUM_RANGING_BROADCASTS cfg) - 1)"

definition send_poll_setup :: "config \<Rightarrow> uint32_t \<Rightarrow> tag \<Rightarrow> fault + tag" where
  "send_poll_setup cfg systime s =
     (let tx_len = sizeof_pp_tag_poll cfg;
          s1 = s\<lparr>pkt_seqNum := pkt_seqNum s + 1,
                 pkt_subsequence := ranging_broadcast_ss_num s\<rparr>;
          s2 = hw Dwt_forcetrxoff s1;
          s3 = hw (Dwt_writetxfctrl tx_len) s2;
          s4 = hw (Dwt_setdelayedtrxtime (delay_time cfg systime)) s3
      in if unat (ranging_broadcast_ss_num s4) < length (ranging_broadcast_ss_send_times s4) then
           Inr (hw (Dwt_writetxdata tx_len (pkt_seqNum s4) (pkt_subsequence s4))
                  (s4\<lparr>ranging_broadcast_ss_send_times :=
                        (ranging_broadcast_ss_send_times s4)
                          [unat (ranging_broadcast_ss_num s4) := send_time cfg systime]\<rparr>))
         else Inl Out_of_bounds)"

definition send_poll_start :: "config \<Rightarrow> tag \<Rightarrow> tag" where
  "send_poll_start cfg s =
     hw Dwt_settxantennadelay
       (if last_broadcast cfg s then hw (Dwt_starttx True) (hw (Dwt_setrxaftertxdelay 1) s)
        else hw (Dwt_starttx False) s)"

definition send_poll :: "config \<Rightarrow> uint32_t \<Rightarrow> tag \<Rightarrow> fault + tag" where
  "send_poll cfg systime s =
     (case send_poll_setup cfg systime s of
        Inl e \<Rightarrow> Inl e
      | Inr s' \<Rightarrow> Inr (send_poll_start cfg s'))"

text \<open>\<^verbatim>\<open>ranging_broadcast_subsequence_task\<close> (lines 264-278).\<close>

definition ranging_broadcast_subsequence_task :: "config \<Rightarrow> uint32_t \<Rightarrow> tag \<Rightarrow> fault + tag" where
  "ranging_broadcast_subsequence_task cfg systime s =
     (let s1 = (if last_broadcast cfg s then timer_stop s else s);
          s2 = hw (Set_ranging_broadcast_subsequence_settings (ranging_broadcast_ss_num s1)) s1
      in case send_poll cfg systime s2 of
           Inl e \<Rightarrow> Inl e
         | Inr s3 \<Rightarrow> Inr (s3\<lparr>ranging_broadcast_ss_num := ranging_broadcast_ss_num s3 + 1\<rparr>))"

text \<open>\<^verbatim>\<open>calculate_ranges\<close> (lines 308-310) has an empty body; the call is traced.\<close>

definition calculate_ranges :: "tag \<Rightarrow> tag" where
  "calculate_ranges s = hw Calculate_ranges s"

text \<open>\<^verbatim>\<open>ranging_listening_window_task\<close> (lines 282-306).\<close>

definition ranging_listening_window_task :: "config \<Rightarrow> tag \<Rightarrow> tag" where
  "ranging_listening_window_task cfg s =
     (if unat (ranging_listening_window_num s) = NUM_RANGING_LISTENING_WINDOWS cfg then
        calculate_ranges ((hw Dwt_forcetrxoff (timer_stop s))\<lparr>tag_state := TSTATE_CALCULATE_RANGE\<rparr>)
      else
        (hw (Set_ranging_listening_window_settings (ranging_listening_window_num s)) s)
          \<lparr>ranging_listening_window_num := ranging_listening_window_num s + 1\<rparr>)"

subsection \<open>Events\<close>

text \<open>
  What the surrounding firmware does to the file: it asks for a ranging event, the timer
  fires (the clock reading is the one \<^verbatim>\<open>send_poll\<close> takes during that fire), the radio
  reports a transmission, the radio reports a reception. A timer that is not armed does
  not call anything.
\<close>

datatype tag_event =
    Start_ranging_event
  | Timer_fire uint32_t
  | Tx_callback dwt_callback_data_t
  | Rx_callback dwt_callback_data_t uint64_t pp_anc_final

definition timer_fire :: "config \<Rightarrow> uint32_t \<Rightarrow> tag \<Rightarrow> fault + tag" where
  "timer_fire cfg systime s =
     (case ranging_broadcast_timer s of
        None \<Rightarrow> Inr s
      | Some (period, Ranging_broadcast_subsequence_task) \<Rightarrow>
          ranging_broadcast_subsequence_task cfg systime s
      | Some (period, Ranging_listening_window_task) \<Rightarrow>
          Inr (ranging_listening_window_task cfg s))"

fun step :: "config \<Rightarrow> tag_event \<Rightarrow> tag \<Rightarrow> fault + tag" where
  "step cfg Start_ranging_event s = Inr (dw1000_tag_start_ranging_event cfg s)"
| "step cfg (Timer_fire systime) s = timer_fire cfg systime s"
| "step cfg (Tx_callback d) s = Inr (dw1000_tag_txcallback cfg d s)"
| "step cfg (Rx_callback rxd rx_ts buf) s = Inr (dw1000_tag_rxcallback cfg rxd rx_ts buf s)"

fun run :: "config \<Rightarrow> tag_event list \<Rightarrow> tag \<Rightarrow> fault + tag" where
  "run cfg [] s = Inr s"
| "run cfg (e # es) s = (case step cfg e s of Inl f \<Rightarrow> Inl f | Inr s' \<Rightarrow> run cfg es s')"

text \<open>A sequence of receive callbacks, each with what the radio delivered.\<close>

definition rx_callbacks :: "config \<Rightarrow> (dwt_callback_data_t \<times> uint64_t \<times> pp_anc_final) list \<Rightarrow> tag \<Rightarrow> tag" where
  "rx_callbacks cfg rs s = fold (\<lambda>(rxd, rx_ts, buf). dw1000_tag_rxcallback cfg rxd rx_ts buf) rs s"

text \<open>
  One broadcast per timer fire, each followed by the radio's transmit callback.
\<close>

definition broadcast_events :: "dwt_callback_data_t \<Rightarrow> uint32_t list \<Rightarrow> tag_event list" where
  "broadcast_events d ts = concat (map (\<lambda>t. [Timer_fire t, Tx_callback d]) ts)"

text \<open>Reading a field of the state a run ends in; \<open>None\<close> if the run faulted.\<close>

definition outcome :: "(tag \<Rightarrow> 'a) \<Rightarrow> fault + tag \<Rightarrow> 'a option" where
  "outcome f r = (case r of Inl e \<Rightarrow> None | Inr s \<Rightarrow> Some (f s))"

text \<open>
  The two arrays have their declared sizes, and while the timer is armed with the
  broadcast task the subsequence index is inside the send-time array.
\<close>

definition tag_wf :: "config \<Rightarrow> tag \<Rightarrow> bool" where
  "tag_wf cfg s =
     (length (ranging_broadcast_ss_send_times s) = NUM_RANGING_BROADCASTS cfg \<and>
      length (anchor_response_times s) = MAX_NUM_ANCHOR_RESPONSES cfg \<and>
      (case ranging_broadcast_timer s of
         Some (p, Ranging_broadcast_subsequence_task) \<Rightarrow>
           unat (ranging_broadcast_ss_num s) < NUM_RANGING_BROADCASTS cfg
       | _ \<Rightarrow> True))"

text \<open>
  States in which the machine is idle or broadcasting, the timer is not armed with the
  listening-window task, the window index is 0 and the range calculator has not been
  called.
\<close>

definition never_listening :: "tag \<Rightarrow> bool" where
  "never_listening s =
     ((tag_state s = TSTATE_IDLE \<or> tag_state s = TSTATE_BROADCASTS) \<and>
      (case ranging_broadcast_timer s of
         Some (p, Ranging_listening_window_task) \<Rightarrow> False
       | _ \<Rightarrow> True) \<and>
      ranging_listening_window_num s = 0 \<and>
      Calculate_ranges \<notin> set (hw_trace s))"

subsection \<open>A concrete configuration\<close>

text \<open>
  Three broadcasts, two listening windows, room for two anchor responses, and a
  transmit margin of \<open>0x100\<close> clock units.
\<close>

definition example_config :: config where
  "example_config =
     \<lparr>NUM_RANGING_BROADCASTS = 3,
      NUM_RANGING_LISTENING_WINDOWS = 2,
      MAX_NUM_ANCHOR_RESPONSES = 2,
      DW1000_TAG_MAX_RX_PKT_LEN = 64,
      MSG_TYPE_PP_NOSLOTS_TAG_POLL = 0x80,
      MSG_TYPE_PP_NOSLOTS_ANC_FINAL = 0x81,
      RANGING_BROADCASTS_PERIOD_US = 2000,
      RANGING_LISTENING_WINDOW_US = 10000,
      sizeof_pp_tag_poll = 21,
      DW_DELAY_FROM_PKT_LEN = (\<lambda>len. 0x100)\<rparr>"

definition anc_final_frame :: pp_anc_final where
  "anc_final_frame =
     \<lparr>header_sourceAddr = [1, 2, 3, 4, 5, 6, 7, 8],
      message_type = 0x81,
      TOAs = [0x1000, 0x2000, 0x3000],
      dw_time_sent = 0xFFFFFFFF\<rparr>"

definition other_frame :: pp_anc_final where
  "other_frame = anc_final_frame\<lparr>message_type := 0x42\<rparr>"

definition rx_okay :: dwt_callback_data_t where
  "rx_okay = \<lparr>event = DWT_SIG_RX_OKAY, datalength = 40\<rparr>"

definition tx_done :: dwt_callback_data_t where
  "tx_done = \<lparr>event = DWT_SIG_TX_DONE, datalength = 0\<rparr>"

text \<open>
  The ranging event of claim C1: the start, three broadcasts each confirmed by the
  radio, two anchor responses, two fires of the timer.
\<close>

definition broadcast_phase :: "tag_event list" where
  "broadcast_phase =
     [Start_ranging_event,
      Timer_fire 0x1000, Tx_callback tx_done,
      Timer_fire 0x2000, Tx_callback tx_done,
      Timer_fire 0x3000, Tx_callback tx_done]"

definition full_event :: "tag_event list" where
  "full_event =
     broadcast_phase @
     [Rx_callback rx_okay 0x5000 anc_final_frame,
      Rx_callback rx_okay 0x6000 anc_final_frame,
      Timer_fire 0x7000, Timer_fire 0x8000]"

definition rx_syncloss :: dwt_callback_data_t where
  "rx_syncloss = \<lparr>event = DWT_SIG_RX_SYNCLOSS, datalength = 0\<rparr>"

text \<open>
  The state in which the listening phase begins. No run from the initial state gets
  there (see \<open>listening_unreachable\<close> below); it is what the transmit callback makes of
  the initial state once \<^verbatim>\<open>_tag_state\<close>, which is not \<^verbatim>\<open>static\<close>, holds
  \<^verbatim>\<open>TSTATE_TRANSITION_TO_ANC_FINAL\<close>.
\<close>

definition listening_entry :: tag where
  "listening_entry =
     dw1000_tag_txcallback example_config tx_done
       ((initial_tag example_config)\<lparr>tag_state := TSTATE_TRANSITION_TO_ANC_FINAL\<rparr>)"

text \<open>The state right after \<^verbatim>\<open>dw1000_tag_start_ranging_event\<close> on the initial state.\<close>

definition started_tag :: tag where
  "started_tag = dw1000_tag_start_ranging_event example_config (initial_tag example_config)"

text \<open>The initial state after two anchor responses: the collection is full.\<close>

definition full_tag :: tag where
  "full_tag =
     rx_callbacks example_config
       [(rx_okay, 0x5000, anc_final_frame), (rx_okay, 0x6000, anc_final_frame)]
       (initial_tag example_config)"

text \<open>
  Three broadcasts whose clock readings run up to the 32-bit wrap: the third scheduled
  time is \<open>0xFFFFFF00 + 0x100\<close>, which is 0 in 32 bits.
\<close>

definition wrap_event :: "tag_event list" where
  "wrap_event = Start_ranging_event # broadcast_events tx_done [0xFFFFFD00, 0xFFFFFE00, 0xFFFFFF00]"


section \<open>Auxiliary facts\<close>

lemmas model_defs =
  dw1000_tag_start_ranging_event_def dw1000_tag_txcallback_def dw1000_tag_rxcallback_def
  send_poll_def send_poll_setup_def send_poll_start_def ranging_broadcast_subsequence_task_def
  ranging_listening_window_task_def calculate_ranges_def timer_fire_def timer_start_def
  timer_stop_def hw_def last_broadcast_def rx_error_event_def store_anc_final_def
  delay_time_def send_time_def

lemma replicate_3: "replicate 3 x = [x, x, x]"
  by (simp add: numeral_3_eq_3)

lemma replicate_2: "replicate 2 x = [x, x]"
  by (simp add: numeral_2_eq_2)

lemmas example_defs = replicate_3 replicate_2
  example_config_def anc_final_frame_def other_frame_def rx_okay_def tx_done_def
  initial_tag_def zero_response_def listening_entry_def full_event_def outcome_def
  broadcast_phase_def rx_syncloss_def
  started_tag_def full_tag_def wrap_event_def broadcast_events_def rx_callbacks_def


subsection \<open>Timestamps as numbers\<close>

lemma unat_ucast_32_64: "unat (ucast (x::32 word) :: 64 word) = unat x"
proof -
  have "unat x < 2 ^ 32" using unsigned_less[of x] by simp
  then have "unat x < 2 ^ 64" by simp
  then show ?thesis
    by (simp add: unsigned_ucast_eq take_bit_nat_eq_self)
qed

lemma unat_shift8: "unat (push_bit 8 (ucast (x::32 word)) :: 64 word) = 256 * unat x"
proof -
  have "unat x < 2 ^ 32" using unsigned_less[of x] by simp
  then have "unat x * 256 < 2 ^ 64" by simp
  then have "unat (ucast x :: 64 word) * unat (256 :: 64 word) < 2 ^ LENGTH(64)"
    by (simp add: unat_ucast_32_64)
  then have "unat ((ucast x :: 64 word) * 256) = unat (ucast x :: 64 word) * unat (256 :: 64 word)"
    by (simp only: unat_mult_lem)
  then show ?thesis
    by (simp add: push_bit_eq_mult unat_ucast_32_64)
qed

lemma low_byte_zero: "(push_bit 8 (y :: 64 word)) AND 0xFF = 0"
proof -
  have "(0xFF :: 64 word) = mask 8" by (simp add: mask_eq_exp_minus_1)
  then have "push_bit 8 y AND 0xFF = take_bit 8 (push_bit 8 y)"
    by (simp only: take_bit_eq_mask)
  also have "\<dots> = 0" by (simp add: take_bit_push_bit)
  finally show ?thesis .
qed

lemma and_not_mask_shift: "(x :: 32 word) AND NOT (mask n) = push_bit n (drop_bit n x)"
  by (rule bit_word_eqI) (auto simp: bit_simps)

lemma clear_lsb: "(x AND 0xFFFFFFFE :: 32 word) = push_bit 1 (drop_bit 1 x)"
proof -
  have "(0xFFFFFFFE :: 32 word) = NOT 1" by simp
  then have "x AND 0xFFFFFFFE = x AND NOT (mask 1)" by (simp only: mask_1)
  then show ?thesis by (simp only: and_not_mask_shift)
qed

lemma unat_clear_lsb: "unat (x AND 0xFFFFFFFE :: 32 word) = 2 * (unat x div 2)"
proof -
  have "unat x < 2 ^ 32" using unsigned_less[of x] by simp
  then have "2 * (unat x div 2) < 2 ^ 32" by simp
  then show ?thesis
    by (simp only: clear_lsb unsigned_push_bit_eq unat_drop_bit_eq)
       (simp add: take_bit_nat_eq_self push_bit_eq_mult drop_bit_eq_div)
qed

lemma unat_delay_time:
  "unat (delay_time cfg systime) =
     2 * (((unat systime + unat (DW_DELAY_FROM_PKT_LEN cfg (sizeof_pp_tag_poll cfg))) mod 2 ^ 32) div 2)"
  by (simp only: delay_time_def unat_clear_lsb) (simp add: unat_word_ariths)

lemma unat_send_time: "unat (send_time cfg systime) = 256 * unat (delay_time cfg systime)"
  by (simp only: send_time_def unat_shift8)

lemma send_poll_in_range:
  assumes "unat (ranging_broadcast_ss_num s) < length (ranging_broadcast_ss_send_times s)"
  shows "\<exists>s'. send_poll cfg systime s = Inr s' \<and>
           ranging_broadcast_ss_send_times s' =
             (ranging_broadcast_ss_send_times s)[unat (ranging_broadcast_ss_num s) := send_time cfg systime] \<and>
           ranging_broadcast_ss_num s' = ranging_broadcast_ss_num s"
  using assms by (simp add: send_poll_def send_poll_setup_def send_poll_start_def hw_def Let_def)

lemma send_time_eq_0_iff: "send_time cfg t = 0 \<longleftrightarrow> delay_time cfg t = 0"
proof -
  have "send_time cfg t = 0 \<longleftrightarrow> unat (send_time cfg t) = 0" by (simp add: unat_eq_0)
  also have "\<dots> \<longleftrightarrow> unat (delay_time cfg t) = 0" by (simp add: unat_send_time)
  also have "\<dots> \<longleftrightarrow> delay_time cfg t = 0" by (simp add: unat_eq_0)
  finally show ?thesis .
qed

lemma send_time_less_iff: "send_time cfg t < send_time cfg t' \<longleftrightarrow> delay_time cfg t < delay_time cfg t'"
  by (simp add: word_less_nat_alt unat_send_time)

subsection \<open>The receive callback\<close>

lemma store_anc_final_eq:
  "store_anc_final rx_ts buf r =
     \<lparr>anchor_addr = take 8 (header_sourceAddr buf),
      tag_poll_TOAs = TOAs buf,
      anc_final_tx_timestamp = push_bit 8 (ucast (dw_time_sent buf)),
      anc_final_rx_timestamp = rx_ts\<rparr>"
  by (cases r) (simp add: store_anc_final_def)

lemma rxcallback_count_le:
  "unat (anchor_response_count s) \<le> MAX_NUM_ANCHOR_RESPONSES cfg \<Longrightarrow>
   unat (anchor_response_count (dw1000_tag_rxcallback cfg rxd rx_ts buf s)) \<le> MAX_NUM_ANCHOR_RESPONSES cfg"
  by (auto simp: dw1000_tag_rxcallback_def hw_def Let_def unat_word_ariths intro: le_trans[OF mod_less_eq_dividend])

lemma rx_callbacks_count_le:
  "unat (anchor_response_count s) \<le> MAX_NUM_ANCHOR_RESPONSES cfg \<Longrightarrow>
   unat (anchor_response_count (rx_callbacks cfg rs s)) \<le> MAX_NUM_ANCHOR_RESPONSES cfg"
  unfolding rx_callbacks_def
  by (induction rs arbitrary: s) (auto simp: rxcallback_count_le)

subsection \<open>The broadcast phase\<close>

lemma run_append:
  "run cfg (es @ es') s = (case run cfg es s of Inl f \<Rightarrow> Inl f | Inr s' \<Rightarrow> run cfg es' s')"
  by (induction es arbitrary: s) (auto split: sum.splits)

lemma last_broadcast_iff:
  "last_broadcast cfg s \<longleftrightarrow> Suc (unat (ranging_broadcast_ss_num s)) = NUM_RANGING_BROADCASTS cfg"
proof -
  have "uint (ranging_broadcast_ss_num s) = int (unat (ranging_broadcast_ss_num s))"
    by simp
  then show ?thesis
    unfolding last_broadcast_def by linarith
qed

lemma broadcast_task_in_range:
  assumes "unat (ranging_broadcast_ss_num s) < length (ranging_broadcast_ss_send_times s)"
  shows "\<exists>s'. ranging_broadcast_subsequence_task cfg t s = Inr s' \<and>
           tag_state s' = tag_state s \<and>
           ranging_broadcast_ss_send_times s' =
             (ranging_broadcast_ss_send_times s)[unat (ranging_broadcast_ss_num s) := send_time cfg t] \<and>
           ranging_broadcast_ss_num s' = ranging_broadcast_ss_num s + 1 \<and>
           ranging_broadcast_timer s' =
             (if last_broadcast cfg s then None else ranging_broadcast_timer s) \<and>
           anchor_response_times s' = anchor_response_times s"
  using assms
  by (simp add: ranging_broadcast_subsequence_task_def send_poll_def send_poll_setup_def
      send_poll_start_def timer_stop_def hw_def Let_def last_broadcast_def)

lemma broadcast_round:
  assumes "tag_state s = TSTATE_BROADCASTS"
    and "ranging_broadcast_timer s = Some (p, Ranging_broadcast_subsequence_task)"
    and "unat (ranging_broadcast_ss_num s) < length (ranging_broadcast_ss_send_times s)"
    and "event d = DWT_SIG_TX_DONE"
  shows "\<exists>s'. run cfg [Timer_fire t, Tx_callback d] s = Inr s' \<and>
           tag_state s' = TSTATE_BROADCASTS \<and>
           ranging_broadcast_ss_send_times s' =
             (ranging_broadcast_ss_send_times s)[unat (ranging_broadcast_ss_num s) := send_time cfg t] \<and>
           ranging_broadcast_ss_num s' = ranging_broadcast_ss_num s + 1 \<and>
           ranging_broadcast_timer s' =
             (if last_broadcast cfg s then None else ranging_broadcast_timer s)"
proof -
  obtain s1 where s1: "ranging_broadcast_subsequence_task cfg t s = Inr s1"
    "tag_state s1 = tag_state s"
    "ranging_broadcast_ss_send_times s1 =
       (ranging_broadcast_ss_send_times s)[unat (ranging_broadcast_ss_num s) := send_time cfg t]"
    "ranging_broadcast_ss_num s1 = ranging_broadcast_ss_num s + 1"
    "ranging_broadcast_timer s1 = (if last_broadcast cfg s then None else ranging_broadcast_timer s)"
    using broadcast_task_in_range[OF assms(3)] by blast
  have tx: "dw1000_tag_txcallback cfg d s1 = s1"
    using assms(1,4) s1(2) by (simp add: dw1000_tag_txcallback_def)
  have fire: "timer_fire cfg t s = Inr s1"
    using assms(2) s1(1) by (simp add: timer_fire_def)
  have "run cfg [Timer_fire t, Tx_callback d] s = Inr s1"
    by (simp only: run.simps step.simps fire tx sum.case)
  then show ?thesis using s1(2-5) assms(1) by simp
qed

lemma take_Suc_update: "j < length xs \<Longrightarrow> take (Suc j) (xs[j := v]) = take j xs @ [v]"
  by (simp add: take_Suc_conv_app_nth)

lemma broadcast_rounds:
  assumes d: "event d = DWT_SIG_TX_DONE"
  shows "tag_state s = TSTATE_BROADCASTS \<Longrightarrow>
     (ts \<noteq> [] \<longrightarrow> ranging_broadcast_timer s = Some (p, Ranging_broadcast_subsequence_task)) \<Longrightarrow>
     length (ranging_broadcast_ss_send_times s) = NUM_RANGING_BROADCASTS cfg \<Longrightarrow>
     unat (ranging_broadcast_ss_num s) + length ts \<le> NUM_RANGING_BROADCASTS cfg \<Longrightarrow>
     unat (ranging_broadcast_ss_num s) + length ts \<le> 256 \<Longrightarrow>
     \<exists>s'. run cfg (broadcast_events d ts) s = Inr s' \<and>
       ranging_broadcast_ss_send_times s' =
         take (unat (ranging_broadcast_ss_num s)) (ranging_broadcast_ss_send_times s) @
         map (send_time cfg) ts @
         drop (unat (ranging_broadcast_ss_num s) + length ts) (ranging_broadcast_ss_send_times s) \<and>
       ranging_broadcast_ss_num s' = ranging_broadcast_ss_num s + of_nat (length ts) \<and>
       (unat (ranging_broadcast_ss_num s) + length ts < NUM_RANGING_BROADCASTS cfg \<longrightarrow>
        ranging_broadcast_timer s' = ranging_broadcast_timer s)"
proof (induction ts arbitrary: s)
  case Nil
  then show ?case by (simp add: broadcast_events_def)
next
  case (Cons t ts)
  let ?j = "unat (ranging_broadcast_ss_num s)"
  let ?xs = "ranging_broadcast_ss_send_times s"
  have j: "?j < length ?xs" using Cons.prems(3,4) by simp
  have tm: "ranging_broadcast_timer s = Some (p, Ranging_broadcast_subsequence_task)"
    using Cons.prems(2) by simp
  obtain s1 where s1: "run cfg [Timer_fire t, Tx_callback d] s = Inr s1"
    "tag_state s1 = TSTATE_BROADCASTS"
    "ranging_broadcast_ss_send_times s1 = ?xs[?j := send_time cfg t]"
    "ranging_broadcast_ss_num s1 = ranging_broadcast_ss_num s + 1"
    "ranging_broadcast_timer s1 = (if last_broadcast cfg s then None else ranging_broadcast_timer s)"
    using broadcast_round[OF Cons.prems(1) tm j d] by blast
  have split: "broadcast_events d (t # ts) = [Timer_fire t, Tx_callback d] @ broadcast_events d ts"
    by (simp add: broadcast_events_def)
  have run1: "run cfg (broadcast_events d (t # ts)) s = run cfg (broadcast_events d ts) s1"
    by (simp only: split run_append s1(1)) simp
  show ?case
  proof (cases "ts = []")
    case True
    have "?xs[?j := send_time cfg t] = take ?j ?xs @ [send_time cfg t] @ drop (Suc ?j) ?xs"
      using j by (simp add: upd_conv_take_nth_drop)
    then show ?thesis
      using True run1 s1 by (simp add: broadcast_events_def last_broadcast_iff)
  next
    case False
    then have len: "1 \<le> length ts" by (cases ts) auto
    then have lt: "Suc ?j < NUM_RANGING_BROADCASTS cfg"
      using Cons.prems(4) by simp
    have "?j < 255" using Cons.prems(5) len by simp
    then have u1: "unat (ranging_broadcast_ss_num s1) = Suc ?j"
      by (simp add: s1(4) unat_word_ariths)
    have notlast: "\<not> last_broadcast cfg s"
      using lt by (simp add: last_broadcast_iff)
    have "\<exists>s'. run cfg (broadcast_events d ts) s1 = Inr s' \<and>
       ranging_broadcast_ss_send_times s' =
         take (unat (ranging_broadcast_ss_num s1)) (ranging_broadcast_ss_send_times s1) @
         map (send_time cfg) ts @
         drop (unat (ranging_broadcast_ss_num s1) + length ts) (ranging_broadcast_ss_send_times s1) \<and>
       ranging_broadcast_ss_num s' = ranging_broadcast_ss_num s1 + of_nat (length ts) \<and>
       (unat (ranging_broadcast_ss_num s1) + length ts < NUM_RANGING_BROADCASTS cfg \<longrightarrow>
        ranging_broadcast_timer s' = ranging_broadcast_timer s1)"
    proof (rule Cons.IH)
      show "tag_state s1 = TSTATE_BROADCASTS" by (rule s1(2))
      show "ts \<noteq> [] \<longrightarrow> ranging_broadcast_timer s1 = Some (p, Ranging_broadcast_subsequence_task)"
        using notlast s1(5) tm by simp
      show "length (ranging_broadcast_ss_send_times s1) = NUM_RANGING_BROADCASTS cfg"
        using Cons.prems(3) s1(3) by simp
      show "unat (ranging_broadcast_ss_num s1) + length ts \<le> NUM_RANGING_BROADCASTS cfg"
        using Cons.prems(4) u1 by simp
      show "unat (ranging_broadcast_ss_num s1) + length ts \<le> 256"
        using Cons.prems(5) u1 by simp
    qed
    then obtain s' where s': "run cfg (broadcast_events d ts) s1 = Inr s'"
       "ranging_broadcast_ss_send_times s' =
         take (Suc ?j) (?xs[?j := send_time cfg t]) @
         map (send_time cfg) ts @
         drop (Suc ?j + length ts) (?xs[?j := send_time cfg t])"
       "ranging_broadcast_ss_num s' = ranging_broadcast_ss_num s + 1 + of_nat (length ts)"
       "Suc ?j + length ts < NUM_RANGING_BROADCASTS cfg \<longrightarrow>
        ranging_broadcast_timer s' = ranging_broadcast_timer s"
      using u1 s1(3,4,5) notlast by auto
    have "ranging_broadcast_ss_send_times s' =
        take ?j ?xs @ map (send_time cfg) (t # ts) @ drop (?j + length (t # ts)) ?xs"
      using j s'(2) by (simp add: take_Suc_update)
    then show ?thesis
      using run1 s'(1,3,4) by (simp add: add.assoc)
  qed
qed

text \<open>
  The subsequence index is 8 bits wide. With 257 broadcasts configured it never equals
  \<^verbatim>\<open>NUM_RANGING_BROADCASTS-1\<close>: after 256 broadcasts it is back at 0, the last slot is
  still unset, and the timer is still armed with the broadcast task.
\<close>

lemma subsequence_index_wraps:
  assumes "NUM_RANGING_BROADCASTS cfg = 257"
    and "event d = DWT_SIG_TX_DONE"
    and "length ts = 256"
  shows "\<exists>s'. run cfg (broadcast_events d ts) (dw1000_tag_start_ranging_event cfg s) = Inr s' \<and>
       ranging_broadcast_ss_send_times s' = map (send_time cfg) ts @ [0] \<and>
       ranging_broadcast_ss_num s' = 0 \<and>
       ranging_broadcast_timer s' =
         Some (RANGING_BROADCASTS_PERIOD_US cfg, Ranging_broadcast_subsequence_task)"
proof -
  let ?s0 = "dw1000_tag_start_ranging_event cfg s"
  have s0: "tag_state ?s0 = TSTATE_BROADCASTS"
    "ranging_broadcast_timer ?s0 =
       Some (RANGING_BROADCASTS_PERIOD_US cfg, Ranging_broadcast_subsequence_task)"
    "ranging_broadcast_ss_send_times ?s0 = replicate (NUM_RANGING_BROADCASTS cfg) 0"
    "ranging_broadcast_ss_num ?s0 = 0"
    by (simp_all add: dw1000_tag_start_ranging_event_def timer_start_def hw_def)
  have "\<exists>s'. run cfg (broadcast_events d ts) ?s0 = Inr s' \<and>
       ranging_broadcast_ss_send_times s' =
         take (unat (ranging_broadcast_ss_num ?s0)) (ranging_broadcast_ss_send_times ?s0) @
         map (send_time cfg) ts @
         drop (unat (ranging_broadcast_ss_num ?s0) + length ts) (ranging_broadcast_ss_send_times ?s0) \<and>
       ranging_broadcast_ss_num s' = ranging_broadcast_ss_num ?s0 + of_nat (length ts) \<and>
       (unat (ranging_broadcast_ss_num ?s0) + length ts < NUM_RANGING_BROADCASTS cfg \<longrightarrow>
        ranging_broadcast_timer s' = ranging_broadcast_timer ?s0)"
    using assms(1,3) s0
    by (intro broadcast_rounds[OF assms(2), where p = "RANGING_BROADCASTS_PERIOD_US cfg"]) simp_all
  moreover have "replicate (257 - 256) (0 :: uint64_t) = [0]" by simp
  moreover have "(256 :: uint8_t) = 0"
    by (simp add: word_eq_iff_unsigned [where ?'a = nat])
  ultimately show ?thesis
    using assms(1,3) by (simp add: s0)
qed

lemma send_poll_setup_in_range:
  assumes "unat (ranging_broadcast_ss_num u) < length (ranging_broadcast_ss_send_times u)"
  shows "\<exists>u1. send_poll_setup cfg t u = Inr u1 \<and>
      ranging_broadcast_ss_send_times u1 =
        (ranging_broadcast_ss_send_times u)[unat (ranging_broadcast_ss_num u) := send_time cfg t] \<and>
      hw_trace u1 = hw_trace u @
        [Dwt_forcetrxoff, Dwt_writetxfctrl (sizeof_pp_tag_poll cfg),
         Dwt_setdelayedtrxtime (delay_time cfg t),
         Dwt_writetxdata (sizeof_pp_tag_poll cfg) (pkt_seqNum u + 1) (ranging_broadcast_ss_num u)] \<and>
      send_poll cfg t u = Inr (send_poll_start cfg u1) \<and>
      ranging_broadcast_ss_send_times (send_poll_start cfg u1) = ranging_broadcast_ss_send_times u1 \<and>
      hw_trace (send_poll_start cfg u1) = hw_trace u1 @
        (if last_broadcast cfg u then [Dwt_setrxaftertxdelay 1, Dwt_starttx True]
         else [Dwt_starttx False]) @ [Dwt_settxantennadelay]"
  using assms
  by (simp add: send_poll_def send_poll_setup_def send_poll_start_def hw_def Let_def last_broadcast_def)

subsection \<open>The listening phase\<close>

text \<open>
  The listening-window task by itself, from a state in which the timer is armed with it:
  a fire with the window index below \<^verbatim>\<open>NUM_RANGING_LISTENING_WINDOWS\<close> applies that
  window and increments the index, and the fire that finds the index equal to it ends
  the phase. So \<open>W\<close> windows take \<open>W + 1\<close> fires.
\<close>

lemma listening_window_step:
  assumes "ranging_broadcast_timer s = Some (p, Ranging_listening_window_task)"
    and "unat (ranging_listening_window_num s) < NUM_RANGING_LISTENING_WINDOWS cfg"
  shows "timer_fire cfg t s =
     Inr (s\<lparr>ranging_listening_window_num := ranging_listening_window_num s + 1,
            hw_trace := hw_trace s @
              [Set_ranging_listening_window_settings (ranging_listening_window_num s)]\<rparr>)"
  using assms by (simp add: timer_fire_def ranging_listening_window_task_def hw_def)

lemma listening_window_last:
  assumes "ranging_broadcast_timer s = Some (p, Ranging_listening_window_task)"
    and "unat (ranging_listening_window_num s) = NUM_RANGING_LISTENING_WINDOWS cfg"
  shows "timer_fire cfg t s =
     Inr (s\<lparr>tag_state := TSTATE_CALCULATE_RANGE,
            ranging_broadcast_timer := None,
            hw_trace := hw_trace s @ [Timer_stop, Dwt_forcetrxoff, Calculate_ranges]\<rparr>)"
  using assms
  by (simp add: timer_fire_def ranging_listening_window_task_def calculate_ranges_def
      timer_stop_def hw_def)

lemma map_upt_Suc_shift: "map f [0..<Suc n] = f 0 # map (\<lambda>i. f (Suc i)) [0..<n]"
  by (simp only: upt_conv_Cons[of 0 "Suc n"] map_Suc_upt[symmetric] list.map map_map o_def)

lemma listening_window_fires:
  assumes W: "NUM_RANGING_LISTENING_WINDOWS cfg \<le> 255"
  shows "ranging_broadcast_timer s = Some (p, Ranging_listening_window_task) \<Longrightarrow>
     unat (ranging_listening_window_num s) + length ts \<le> NUM_RANGING_LISTENING_WINDOWS cfg \<Longrightarrow>
     run cfg (map Timer_fire ts) s =
       Inr (s\<lparr>ranging_listening_window_num := ranging_listening_window_num s + of_nat (length ts),
              hw_trace := hw_trace s @
                map (\<lambda>i. Set_ranging_listening_window_settings
                             (ranging_listening_window_num s + of_nat i)) [0..<length ts]\<rparr>)"
proof (induction ts arbitrary: s)
  case Nil
  then show ?case by simp
next
  case (Cons t ts)
  let ?s1 = "s\<lparr>ranging_listening_window_num := ranging_listening_window_num s + 1,
            hw_trace := hw_trace s @
              [Set_ranging_listening_window_settings (ranging_listening_window_num s)]\<rparr>"
  have lt: "unat (ranging_listening_window_num s) < NUM_RANGING_LISTENING_WINDOWS cfg"
    using Cons.prems(2) by simp
  then have "unat (ranging_listening_window_num s) < 255" using W by simp
  then have u1: "unat (ranging_listening_window_num s + 1) = Suc (unat (ranging_listening_window_num s))"
    by (simp add: unat_word_ariths)
  have fire: "timer_fire cfg t s = Inr ?s1"
    by (rule listening_window_step[OF Cons.prems(1) lt])
  have "run cfg (map Timer_fire ts) ?s1 =
       Inr (?s1\<lparr>ranging_listening_window_num := ranging_listening_window_num ?s1 + of_nat (length ts),
              hw_trace := hw_trace ?s1 @
                map (\<lambda>i. Set_ranging_listening_window_settings
                             (ranging_listening_window_num ?s1 + of_nat i)) [0..<length ts]\<rparr>)"
  proof (rule Cons.IH)
    show "ranging_broadcast_timer ?s1 = Some (p, Ranging_listening_window_task)"
      using Cons.prems(1) by simp
    show "unat (ranging_listening_window_num ?s1) + length ts \<le> NUM_RANGING_LISTENING_WINDOWS cfg"
      using Cons.prems(2) u1 by simp
  qed
  then show ?case
    by (simp add: fire map_upt_Suc_shift add.assoc del: upt_Suc)
qed

subsection \<open>The response records\<close>

text \<open>
  No event clears a response record: after every step each record is what it was, or
  what the receive callback has stored over it.
\<close>

lemma nth_list_update_cases:
  "xs[j := v] ! i = xs ! i \<or> (i = j \<and> xs[j := v] ! i = v)"
  by (cases "j < length xs"; cases "i = j"; simp add: list_update_beyond)

lemma rxcallback_records:
  "anchor_response_times (dw1000_tag_rxcallback cfg rxd rx_ts buf s) = anchor_response_times s \<or>
   anchor_response_times (dw1000_tag_rxcallback cfg rxd rx_ts buf s) =
     (anchor_response_times s)
       [unat (anchor_response_count s) :=
          store_anc_final rx_ts buf (anchor_response_times s ! unat (anchor_response_count s))]"
  by (simp add: dw1000_tag_rxcallback_def hw_def Let_def)

lemma step_records_only_overwritten:
  assumes "step cfg e s = Inr s'"
  shows "length (anchor_response_times s') = length (anchor_response_times s) \<and>
    (anchor_response_times s' ! i = anchor_response_times s ! i \<or>
     (\<exists>rx_ts buf. anchor_response_times s' ! i =
        store_anc_final rx_ts buf (anchor_response_times s ! i)))"
proof (cases e)
  case Start_ranging_event
  then show ?thesis
    using assms by (auto simp: dw1000_tag_start_ranging_event_def timer_start_def hw_def)
next
  case (Timer_fire t)
  then show ?thesis
    using assms
    by (auto simp: timer_fire_def ranging_broadcast_subsequence_task_def
        ranging_listening_window_task_def calculate_ranges_def
        send_poll_def send_poll_setup_def send_poll_start_def timer_stop_def hw_def Let_def
        split: option.splits timer_callback.splits if_splits sum.splits)
next
  case (Tx_callback d)
  then show ?thesis
    using assms
    by (auto simp: dw1000_tag_txcallback_def timer_start_def timer_stop_def hw_def
        split: if_splits)
next
  case (Rx_callback rxd rx_ts buf)
  then have s': "s' = dw1000_tag_rxcallback cfg rxd rx_ts buf s"
    using assms by simp
  let ?j = "unat (anchor_response_count s)"
  let ?v = "store_anc_final rx_ts buf (anchor_response_times s ! ?j)"
  from rxcallback_records[of cfg rxd rx_ts buf s] show ?thesis
  proof
    assume "anchor_response_times (dw1000_tag_rxcallback cfg rxd rx_ts buf s) = anchor_response_times s"
    then show ?thesis by (simp add: s')
  next
    assume upd: "anchor_response_times (dw1000_tag_rxcallback cfg rxd rx_ts buf s) =
      (anchor_response_times s)[?j := ?v]"
    from nth_list_update_cases[of "anchor_response_times s" ?j ?v i]
    have "anchor_response_times s' ! i = anchor_response_times s ! i \<or>
      anchor_response_times s' ! i = store_anc_final rx_ts buf (anchor_response_times s ! i)"
      by (auto simp: s' upd)
    then show ?thesis
      by (auto simp: s' upd)
  qed
qed

subsection \<open>No store outside the arrays\<close>

text \<open>
  With at least one broadcast configured, no sequence of events from the initial state
  reaches the unchecked store of \<^verbatim>\<open>send_poll\<close> with the index outside the array: every
  run returns a state.
\<close>

lemma unat_plus_1_le: "unat (x + 1 :: uint8_t) \<le> Suc (unat x)"
  by (simp add: unat_word_ariths le_trans[OF mod_less_eq_dividend])

lemma step_wf:
  assumes "tag_wf cfg s" and "1 \<le> NUM_RANGING_BROADCASTS cfg"
  shows "\<exists>s'. step cfg e s = Inr s' \<and> tag_wf cfg s'"
proof (cases e)
  case Start_ranging_event
  then show ?thesis
    using assms by (simp add: tag_wf_def dw1000_tag_start_ranging_event_def timer_start_def hw_def)
next
  case (Timer_fire t)
  show ?thesis
  proof (cases "ranging_broadcast_timer s")
    case None
    then show ?thesis using assms Timer_fire by (simp add: timer_fire_def)
  next
    case (Some pc)
    obtain p c where pc: "pc = (p, c)" by (cases pc)
    show ?thesis
    proof (cases c)
      case Ranging_broadcast_subsequence_task
      then have tm: "ranging_broadcast_timer s = Some (p, Ranging_broadcast_subsequence_task)"
        using Some pc by simp
      then have lt: "unat (ranging_broadcast_ss_num s) < NUM_RANGING_BROADCASTS cfg"
        and len: "length (ranging_broadcast_ss_send_times s) = NUM_RANGING_BROADCASTS cfg"
        and len2: "length (anchor_response_times s) = MAX_NUM_ANCHOR_RESPONSES cfg"
        using assms(1) by (simp_all add: tag_wf_def)
      have inr: "unat (ranging_broadcast_ss_num s) < length (ranging_broadcast_ss_send_times s)"
        using lt len by simp
      have next_lt: "unat (ranging_broadcast_ss_num s + 1) < NUM_RANGING_BROADCASTS cfg"
        if "\<not> last_broadcast cfg s"
      proof -
        have "Suc (unat (ranging_broadcast_ss_num s)) < NUM_RANGING_BROADCASTS cfg"
          using that lt by (simp add: last_broadcast_iff)
        then show ?thesis
          using unat_plus_1_le[of "ranging_broadcast_ss_num s"] by simp
      qed
      obtain s' where s': "ranging_broadcast_subsequence_task cfg t s = Inr s'"
        "ranging_broadcast_ss_send_times s' =
           (ranging_broadcast_ss_send_times s)[unat (ranging_broadcast_ss_num s) := send_time cfg t]"
        "ranging_broadcast_ss_num s' = ranging_broadcast_ss_num s + 1"
        "ranging_broadcast_timer s' =
           (if last_broadcast cfg s then None else ranging_broadcast_timer s)"
        "anchor_response_times s' = anchor_response_times s"
        using broadcast_task_in_range[OF inr] by blast
      have "tag_wf cfg s'"
        using s'(2-5) tm len len2 next_lt by (simp add: tag_wf_def)
      then show ?thesis
        using Timer_fire tm s'(1) by (simp add: timer_fire_def)
    next
      case Ranging_listening_window_task
      then show ?thesis
        using assms Timer_fire Some pc
        by (simp add: timer_fire_def tag_wf_def ranging_listening_window_task_def
            calculate_ranges_def timer_stop_def hw_def)
    qed
  qed
next
  case (Tx_callback d)
  then show ?thesis
    using assms
    by (auto simp: tag_wf_def dw1000_tag_txcallback_def timer_start_def timer_stop_def hw_def
        split: option.splits timer_callback.splits)
next
  case (Rx_callback rxd rx_ts buf)
  then show ?thesis
    using assms
    by (auto simp: tag_wf_def dw1000_tag_rxcallback_def hw_def Let_def
        split: option.splits timer_callback.splits)
qed

lemma run_wf:
  assumes "1 \<le> NUM_RANGING_BROADCASTS cfg"
  shows "tag_wf cfg s \<Longrightarrow> \<exists>s'. run cfg es s = Inr s' \<and> tag_wf cfg s'"
proof (induction es arbitrary: s)
  case Nil
  then show ?case by simp
next
  case (Cons e es)
  obtain s1 where s1: "step cfg e s = Inr s1" "tag_wf cfg s1"
    using step_wf[OF Cons.prems assms] by blast
  show ?case
    using Cons.IH[OF s1(2)] s1(1) by simp
qed

lemma run_never_faults:
  assumes "1 \<le> NUM_RANGING_BROADCASTS cfg"
  shows "\<exists>s'. run cfg es (initial_tag cfg) = Inr s' \<and> tag_wf cfg s'"
proof -
  have "tag_wf cfg (initial_tag cfg)"
    by (simp add: tag_wf_def initial_tag_def)
  then show ?thesis by (rule run_wf[OF assms])
qed

subsection \<open>States the machine can reach\<close>

text \<open>
  No function of the file assigns \<^verbatim>\<open>TSTATE_TRANSITION_TO_ANC_FINAL\<close>, and the transmit
  callback leaves the broadcasting state only from there. So from the initial state the
  machine stays idle or broadcasting, whatever the events.
\<close>

lemma step_never_listening:
  assumes "never_listening s" and "step cfg e s = Inr s'"
  shows "never_listening s'"
proof (cases e)
  case Start_ranging_event
  then show ?thesis
    using assms by (auto simp: never_listening_def dw1000_tag_start_ranging_event_def timer_start_def hw_def)
next
  case (Timer_fire t)
  then show ?thesis
    using assms
    by (auto simp: never_listening_def timer_fire_def ranging_broadcast_subsequence_task_def
        send_poll_def send_poll_setup_def send_poll_start_def timer_stop_def hw_def Let_def
        split: option.splits timer_callback.splits if_splits sum.splits)
next
  case (Tx_callback d)
  then show ?thesis
    using assms
    by (auto simp: never_listening_def dw1000_tag_txcallback_def timer_stop_def hw_def
        split: option.splits timer_callback.splits if_splits)
next
  case (Rx_callback rxd rx_ts buf)
  then show ?thesis
    using assms
    by (auto simp: never_listening_def dw1000_tag_rxcallback_def hw_def Let_def
        split: option.splits timer_callback.splits if_splits)
qed

lemma run_never_listening:
  "never_listening s \<Longrightarrow> run cfg es s = Inr s' \<Longrightarrow> never_listening s'"
proof (induction es arbitrary: s)
  case Nil
  then show ?case by simp
next
  case (Cons e es)
  then show ?case
    by (auto split: sum.splits dest: step_never_listening)
qed

lemma listening_unreachable:
  assumes "run cfg es (initial_tag cfg) = Inr s'"
  shows "(tag_state s' = TSTATE_IDLE \<or> tag_state s' = TSTATE_BROADCASTS) \<and>
         ranging_listening_window_num s' = 0 \<and>
         Calculate_ranges \<notin> set (hw_trace s')"
proof -
  have "never_listening (initial_tag cfg)"
    by (simp add: never_listening_def initial_tag_def)
  then have "never_listening s'"
    using assms by (rule run_never_listening)
  then show ?thesis by (simp add: never_listening_def)
qed

subsection \<open>Receive errors\<close>

text \<open>
  What the receive callback does on one of the five error events, in any state; and what
  that comes to right after a fire of the listening-window task, which applies the
  settings of window \<open>n\<close> and then increments the window index.
\<close>

lemma rxcallback_on_error:
  "event rxd \<in> {DWT_SIG_RX_PHR_ERROR, DWT_SIG_RX_ERROR, DWT_SIG_RX_SYNCLOSS,
                 DWT_SIG_RX_SFDTIMEOUT, DWT_SIG_RX_PTOTIMEOUT} \<Longrightarrow>
   dw1000_tag_rxcallback cfg rxd rx_ts buf s =
     s\<lparr>hw_trace := hw_trace s @
         [Set_ranging_listening_window_settings (ranging_listening_window_num s)]\<rparr>"
  by (auto simp: dw1000_tag_rxcallback_def rx_error_event_def hw_def)

lemma rx_error_after_window_fire:
  assumes "ranging_broadcast_timer s = Some (p, Ranging_listening_window_task)"
    and "unat (ranging_listening_window_num s) < NUM_RANGING_LISTENING_WINDOWS cfg"
    and "event rxd \<in> {DWT_SIG_RX_PHR_ERROR, DWT_SIG_RX_ERROR, DWT_SIG_RX_SYNCLOSS,
                 DWT_SIG_RX_SFDTIMEOUT, DWT_SIG_RX_PTOTIMEOUT}"
  shows "run cfg [Timer_fire t, Rx_callback rxd rx_ts buf] s =
     Inr (s\<lparr>ranging_listening_window_num := ranging_listening_window_num s + 1,
            hw_trace := hw_trace s @
              [Set_ranging_listening_window_settings (ranging_listening_window_num s),
               Set_ranging_listening_window_settings (ranging_listening_window_num s + 1)]\<rparr>)"
  by (simp add: listening_window_step[OF assms(1,2)] rxcallback_on_error[OF assms(3)])


section \<open>The claims\<close>

subsection \<open>C1: the state trace of one ranging event\<close>

text \<open>
  C1: with three broadcasts and two listening windows, starting a ranging event moves
  the machine from idle to broadcasting, the transmit callback of the last broadcast moves
  it to listening (window index and response count reset, window timer started), and
  after the window-timer fires it is in the range-computing state with the range
  calculator called once.

  The code does not do this. The transmit callback leaves the broadcasting state only
  from \<^verbatim>\<open>TSTATE_TRANSITION_TO_ANC_FINAL\<close> (line 131), and nothing in the file assigns that
  state. Run from the initial state, the event of the claim is still in the broadcasting
  state after the transmit callback of the last broadcast, with no timer armed; the two
  anchor responses are stored, and timer fires after that do nothing: the state stays
  broadcasting and the range calculator is never called, also after a third fire.
\<close>

theorem full_event_stuck_in_broadcasts:
  "outcome tag_state (run example_config broadcast_phase (initial_tag example_config)) =
     Some TSTATE_BROADCASTS \<and>
   outcome ranging_broadcast_timer
     (run example_config broadcast_phase (initial_tag example_config)) = Some None \<and>
   outcome tag_state (run example_config full_event (initial_tag example_config)) =
     Some TSTATE_BROADCASTS \<and>
   outcome anchor_response_count
     (run example_config full_event (initial_tag example_config)) = Some 2 \<and>
   outcome (\<lambda>s. count_list (hw_trace s) Calculate_ranges)
     (run example_config full_event (initial_tag example_config)) = Some 0 \<and>
   outcome tag_state
     (run example_config (full_event @ [Timer_fire 0x9000]) (initial_tag example_config)) =
     Some TSTATE_BROADCASTS \<and>
   outcome (\<lambda>s. count_list (hw_trace s) Calculate_ranges)
     (run example_config (full_event @ [Timer_fire 0x9000]) (initial_tag example_config)) =
     Some 0"
  by (simp add: model_defs example_defs Let_def)

subsection \<open>C2: what starting an event clears\<close>



subsection \<open>C3: starting an event while one is in progress\<close>

text \<open>
  C3, as stated: called while the machine is not idle, the start entry point fails or
  does nothing, and the event in progress keeps its state. On the code, a start after
  the first broadcast sets the subsequence index back from 1 to 0 and wipes the send time
  already recorded.
\<close>

theorem start_mid_event_resets:
  "outcome (\<lambda>s. (ranging_broadcast_ss_num s, ranging_broadcast_ss_send_times s))
     (run example_config [Start_ranging_event, Timer_fire 0x1000] (initial_tag example_config))
     = Some (1, [0x110000, 0, 0]) \<and>
   outcome (\<lambda>s. (ranging_broadcast_ss_num s, ranging_broadcast_ss_send_times s))
     (run example_config [Start_ranging_event, Timer_fire 0x1000, Start_ranging_event] (initial_tag example_config))
     = Some (0, [0, 0, 0])"
  by (simp add: model_defs example_defs Let_def)

text \<open>
  C3, amended: the start entry point takes no arguments and does not look at the tag
  state. From every state it sets the state to broadcasting, the subsequence index to 0
  and the send-time array to zeros, and arms the timer with the broadcast task; the
  window index, the response count and the response records are unchanged.
\<close>

theorem start_restarts_from_any_state:
  "dw1000_tag_start_ranging_event cfg (s\<lparr>tag_state := st\<rparr>) =
     s\<lparr>tag_state := TSTATE_BROADCASTS,
       ranging_broadcast_ss_num := 0,
       ranging_broadcast_ss_send_times := replicate (NUM_RANGING_BROADCASTS cfg) 0,
       ranging_broadcast_timer := Some (RANGING_BROADCASTS_PERIOD_US cfg, Ranging_broadcast_subsequence_task),
       hw_trace := hw_trace s @ [Timer_start (RANGING_BROADCASTS_PERIOD_US cfg) Ranging_broadcast_subsequence_task]\<rparr>"
  by (simp add: dw1000_tag_start_ranging_event_def timer_start_def hw_def)

subsection \<open>C4: the bound on the anchor responses\<close>

text \<open>
  C4: over any sequence of receive callbacks the response count stays at most
  \<^verbatim>\<open>MAX_NUM_ANCHOR_RESPONSES\<close>; and a well-received \<^verbatim>\<open>ANC_FINAL\<close> packet that finds the
  collection full changes nothing in the state (count, records, tag state and all other
  variables) but the trace of the two reads from the radio.
\<close>

theorem anchor_response_count_bounded:
  assumes "unat (anchor_response_count s) \<le> MAX_NUM_ANCHOR_RESPONSES cfg"
  shows "unat (anchor_response_count (rx_callbacks cfg rs s)) \<le> MAX_NUM_ANCHOR_RESPONSES cfg \<and>
    (event rxd = DWT_SIG_RX_OKAY \<and> message_type buf = MSG_TYPE_PP_NOSLOTS_ANC_FINAL cfg \<and>
     unat (anchor_response_count s) = MAX_NUM_ANCHOR_RESPONSES cfg \<longrightarrow>
     dw1000_tag_rxcallback cfg rxd rx_ts buf s =
       s\<lparr>hw_trace := hw_trace s @
          [Dwt_readrxtimestamp,
           Dwt_readrxdata (min (DW1000_TAG_MAX_RX_PKT_LEN cfg) (unat (datalength rxd)))]\<rparr>)"
  using rx_callbacks_count_le[OF assms]
  by (simp add: dw1000_tag_rxcallback_def hw_def Let_def)

theorem anchor_response_count_bounded_witness:
  "unat (anchor_response_count full_tag) \<le> MAX_NUM_ANCHOR_RESPONSES example_config \<and>
   unat (anchor_response_count
     (rx_callbacks example_config [(rx_okay, 0x7000, anc_final_frame)] full_tag)) \<le> 2 \<and>
   dw1000_tag_rxcallback example_config rx_okay 0x7000 anc_final_frame full_tag =
     full_tag\<lparr>hw_trace := hw_trace full_tag @ [Dwt_readrxtimestamp, Dwt_readrxdata 40]\<rparr>"
proof -
  have cnt: "anchor_response_count full_tag = 2"
    by (simp add: model_defs example_defs Let_def)
  have h: "unat (anchor_response_count full_tag) \<le> MAX_NUM_ANCHOR_RESPONSES example_config"
    by (simp add: cnt example_config_def)
  have e: "event rx_okay = DWT_SIG_RX_OKAY \<and>
      message_type anc_final_frame = MSG_TYPE_PP_NOSLOTS_ANC_FINAL example_config \<and>
      unat (anchor_response_count full_tag) = MAX_NUM_ANCHOR_RESPONSES example_config"
    by (simp add: cnt example_config_def rx_okay_def anc_final_frame_def)
  show ?thesis
    using anchor_response_count_bounded [OF h,
        where rs = "[(rx_okay, 0x7000, anc_final_frame)]" and rxd = rx_okay
          and buf = anc_final_frame and rx_ts = "0x7000"] e h
    by (simp add: example_config_def rx_okay_def)
qed

subsection \<open>C5: the broadcast send times\<close>

text \<open>
  C5, as stated: after the broadcasts of an event the send-time array holds
  \<^verbatim>\<open>NUM_RANGING_BROADCASTS\<close> non-zero entries in strictly increasing order. On the code,
  when the 32-bit clock wraps during the event, the third entry is zero and smaller than
  the second.
\<close>

theorem send_times_wrap_to_zero:
  "outcome ranging_broadcast_ss_send_times
     (run example_config wrap_event (initial_tag example_config)) =
   Some [0xFFFFFE0000, 0xFFFFFF0000, 0]"
  by (simp add: wrap_event_def broadcast_events_def model_defs example_defs Let_def)

text \<open>
  C5, amended: for every number of broadcasts, after starting an event and \<open>k\<close> fires of
  the broadcast task (each followed by its transmit callback), with \<open>k\<close> at most the number
  of broadcasts and at most 256 (the subsequence index has 8 bits), slot \<open>i < k\<close> of the
  send-time array holds the send time scheduled from the clock reading of fire \<open>i\<close> (the reading
  plus the margin in 32 bits, lowest bit cleared, shifted left by 8), the other slots are
  zero, and the subsequence index is \<open>k\<close>: the slots are written one per fire, in
  increasing order, each once. The entries are non-zero, and strictly increasing, exactly
  when the 32-bit scheduled times are. In \<^verbatim>\<open>send_poll\<close> the slot is written, together with
  the programming of the delayed send time, before the transmission is started, and
  starting the transmission does not touch the array. Neither do the transmit callback,
  the receive callback and the listening-window task.
\<close>

theorem broadcast_send_times_recorded:
  assumes "event d = DWT_SIG_TX_DONE"
    and "length ts \<le> NUM_RANGING_BROADCASTS cfg"
    and "length ts \<le> 256"
  shows "(\<exists>s'. run cfg (broadcast_events d ts) (dw1000_tag_start_ranging_event cfg s) = Inr s' \<and>
       ranging_broadcast_ss_send_times s' =
         map (send_time cfg) ts @ replicate (NUM_RANGING_BROADCASTS cfg - length ts) 0 \<and>
       ranging_broadcast_ss_num s' = of_nat (length ts)) \<and>
     list_all (\<lambda>x. x \<noteq> 0) (map (send_time cfg) ts) = list_all (\<lambda>t. delay_time cfg t \<noteq> 0) ts \<and>
     sorted_wrt (<) (map (send_time cfg) ts) = sorted_wrt (<) (map (delay_time cfg) ts) \<and>
     (unat (ranging_broadcast_ss_num u) < length (ranging_broadcast_ss_send_times u) \<longrightarrow>
      (\<exists>u1. send_poll_setup cfg t u = Inr u1 \<and>
        ranging_broadcast_ss_send_times u1 =
          (ranging_broadcast_ss_send_times u)[unat (ranging_broadcast_ss_num u) := send_time cfg t] \<and>
        hw_trace u1 = hw_trace u @
          [Dwt_forcetrxoff, Dwt_writetxfctrl (sizeof_pp_tag_poll cfg),
           Dwt_setdelayedtrxtime (delay_time cfg t),
           Dwt_writetxdata (sizeof_pp_tag_poll cfg) (pkt_seqNum u + 1) (ranging_broadcast_ss_num u)] \<and>
        send_poll cfg t u = Inr (send_poll_start cfg u1) \<and>
        ranging_broadcast_ss_send_times (send_poll_start cfg u1) = ranging_broadcast_ss_send_times u1 \<and>
        hw_trace (send_poll_start cfg u1) = hw_trace u1 @
          (if last_broadcast cfg u then [Dwt_setrxaftertxdelay 1, Dwt_starttx True]
           else [Dwt_starttx False]) @ [Dwt_settxantennadelay])) \<and>
     ranging_broadcast_ss_send_times (dw1000_tag_txcallback cfg d' u) =
       ranging_broadcast_ss_send_times u \<and>
     ranging_broadcast_ss_send_times (dw1000_tag_rxcallback cfg rxd rx_ts buf u) =
       ranging_broadcast_ss_send_times u \<and>
     ranging_broadcast_ss_send_times (ranging_listening_window_task cfg u) =
       ranging_broadcast_ss_send_times u"
proof -
  let ?s0 = "dw1000_tag_start_ranging_event cfg s"
  have tx: "ranging_broadcast_ss_send_times (dw1000_tag_txcallback cfg d' u) =
       ranging_broadcast_ss_send_times u"
    by (simp add: dw1000_tag_txcallback_def timer_start_def timer_stop_def hw_def)
  have rx: "ranging_broadcast_ss_send_times (dw1000_tag_rxcallback cfg rxd rx_ts buf u) =
       ranging_broadcast_ss_send_times u"
    by (simp add: dw1000_tag_rxcallback_def hw_def Let_def)
  have lw: "ranging_broadcast_ss_send_times (ranging_listening_window_task cfg u) =
       ranging_broadcast_ss_send_times u"
    by (simp add: ranging_listening_window_task_def calculate_ranges_def timer_stop_def hw_def)
  have s0: "tag_state ?s0 = TSTATE_BROADCASTS"
    "ranging_broadcast_timer ?s0 =
       Some (RANGING_BROADCASTS_PERIOD_US cfg, Ranging_broadcast_subsequence_task)"
    "ranging_broadcast_ss_send_times ?s0 = replicate (NUM_RANGING_BROADCASTS cfg) 0"
    "ranging_broadcast_ss_num ?s0 = 0"
    by (simp_all add: dw1000_tag_start_ranging_event_def timer_start_def hw_def)
  have "\<exists>s'. run cfg (broadcast_events d ts) ?s0 = Inr s' \<and>
       ranging_broadcast_ss_send_times s' =
         take (unat (ranging_broadcast_ss_num ?s0)) (ranging_broadcast_ss_send_times ?s0) @
         map (send_time cfg) ts @
         drop (unat (ranging_broadcast_ss_num ?s0) + length ts) (ranging_broadcast_ss_send_times ?s0) \<and>
       ranging_broadcast_ss_num s' = ranging_broadcast_ss_num ?s0 + of_nat (length ts) \<and>
       (unat (ranging_broadcast_ss_num ?s0) + length ts < NUM_RANGING_BROADCASTS cfg \<longrightarrow>
        ranging_broadcast_timer s' = ranging_broadcast_timer ?s0)"
    using assms(2,3) s0
    by (intro broadcast_rounds[OF assms(1), where p = "RANGING_BROADCASTS_PERIOD_US cfg"]) simp_all
  then have run: "\<exists>s'. run cfg (broadcast_events d ts) ?s0 = Inr s' \<and>
       ranging_broadcast_ss_send_times s' =
         map (send_time cfg) ts @ replicate (NUM_RANGING_BROADCASTS cfg - length ts) 0 \<and>
       ranging_broadcast_ss_num s' = of_nat (length ts)"
    by (auto simp: s0)
  have nz: "list_all (\<lambda>x. x \<noteq> 0) (map (send_time cfg) ts) = list_all (\<lambda>t. delay_time cfg t \<noteq> 0) ts"
    by (simp add: list_all_iff send_time_eq_0_iff)
  have inc: "sorted_wrt (<) (map (send_time cfg) ts) = sorted_wrt (<) (map (delay_time cfg) ts)"
    by (simp add: sorted_wrt_map send_time_less_iff)
  show ?thesis
    using run nz inc send_poll_setup_in_range[of u cfg t] tx rx lw by (intro conjI impI)
qed

theorem broadcast_send_times_recorded_witness:
  "event tx_done = DWT_SIG_TX_DONE \<and>
   length [0x1000, 0x2000, 0x3000 :: uint32_t] \<le> NUM_RANGING_BROADCASTS example_config \<and>
   length [0x1000, 0x2000, 0x3000 :: uint32_t] \<le> 256 \<and>
   outcome ranging_broadcast_ss_send_times
     (run example_config (broadcast_events tx_done [0x1000, 0x2000, 0x3000])
        (dw1000_tag_start_ranging_event example_config (initial_tag example_config))) =
   Some [0x110000, 0x210000, 0x310000]"
proof -
  have h1: "event tx_done = DWT_SIG_TX_DONE" by (simp add: tx_done_def)
  have h2: "length [0x1000, 0x2000, 0x3000 :: uint32_t] \<le> NUM_RANGING_BROADCASTS example_config"
    by (simp add: example_config_def)
  have h3: "length [0x1000, 0x2000, 0x3000 :: uint32_t] \<le> 256" by simp
  obtain s' where
    "run example_config (broadcast_events tx_done [0x1000, 0x2000, 0x3000])
        (dw1000_tag_start_ranging_event example_config (initial_tag example_config)) = Inr s'"
    "ranging_broadcast_ss_send_times s' =
       map (send_time example_config) [0x1000, 0x2000, 0x3000] @
       replicate (NUM_RANGING_BROADCASTS example_config - length [0x1000, 0x2000, 0x3000 :: uint32_t]) 0"
    using broadcast_send_times_recorded [OF h1 h2 h3] by blast
  then have "outcome ranging_broadcast_ss_send_times
     (run example_config (broadcast_events tx_done [0x1000, 0x2000, 0x3000])
        (dw1000_tag_start_ranging_event example_config (initial_tag example_config))) =
   Some [0x110000, 0x210000, 0x310000]"
    by (simp add: outcome_def send_time_def delay_time_def example_config_def)
  then show ?thesis using h1 h2 h3 by (intro conjI)
qed

subsection \<open>C6: receive errors\<close>


subsection \<open>C7: transmit failures\<close>

text \<open>
  C7: a transmit callback with any event other than \<^verbatim>\<open>DWT_SIG_TX_DONE\<close> stops the timer
  and changes nothing else. The timer being stopped, a later timer fire finds nothing to
  call: the event makes no further progress.
\<close>

theorem tx_failure_only_stops_timer:
  "event d \<noteq> DWT_SIG_TX_DONE \<Longrightarrow>
   dw1000_tag_txcallback cfg d s =
     s\<lparr>ranging_broadcast_timer := None, hw_trace := hw_trace s @ [Timer_stop]\<rparr> \<and>
   timer_fire cfg systime (dw1000_tag_txcallback cfg d s) = Inr (dw1000_tag_txcallback cfg d s)"
  by (simp add: dw1000_tag_txcallback_def timer_stop_def hw_def timer_fire_def)

theorem tx_failure_only_stops_timer_witness:
  "event \<lparr>event = DWT_SIG_OTHER 0, datalength = 0\<rparr> \<noteq> DWT_SIG_TX_DONE \<and>
   dw1000_tag_txcallback example_config \<lparr>event = DWT_SIG_OTHER 0, datalength = 0\<rparr> started_tag =
     started_tag\<lparr>ranging_broadcast_timer := None,
                 hw_trace := hw_trace started_tag @ [Timer_stop]\<rparr> \<and>
   timer_fire example_config 0x1000
     (dw1000_tag_txcallback example_config \<lparr>event = DWT_SIG_OTHER 0, datalength = 0\<rparr> started_tag) =
     Inr (dw1000_tag_txcallback example_config \<lparr>event = DWT_SIG_OTHER 0, datalength = 0\<rparr> started_tag)"
proof -
  have h: "event \<lparr>event = DWT_SIG_OTHER 0, datalength = 0\<rparr> \<noteq> DWT_SIG_TX_DONE" by simp
  show ?thesis
    using h tx_failure_only_stops_timer [OF h, of example_config started_tag "0x1000"]
    by (rule conjI)
qed

subsection \<open>C8: packets of another type\<close>

text \<open>
  C8: a well-received buffer whose message-type byte is neither \<^verbatim>\<open>TAG_POLL\<close> nor
  \<^verbatim>\<open>ANC_FINAL\<close> produces no record and changes no variable: the state after the callback
  is the state before it, with the two reads from the radio added to the trace.
\<close>

theorem rx_other_message_type_ignored:
  "event rxd = DWT_SIG_RX_OKAY \<Longrightarrow>
   message_type buf \<noteq> MSG_TYPE_PP_NOSLOTS_TAG_POLL cfg \<Longrightarrow>
   message_type buf \<noteq> MSG_TYPE_PP_NOSLOTS_ANC_FINAL cfg \<Longrightarrow>
   dw1000_tag_rxcallback cfg rxd rx_ts buf s =
     s\<lparr>hw_trace := hw_trace s @
         [Dwt_readrxtimestamp,
          Dwt_readrxdata (min (DW1000_TAG_MAX_RX_PKT_LEN cfg) (unat (datalength rxd)))]\<rparr>"
  by (simp add: dw1000_tag_rxcallback_def hw_def Let_def)

theorem rx_other_message_type_ignored_witness:
  "event rx_okay = DWT_SIG_RX_OKAY \<and>
   message_type other_frame \<noteq> MSG_TYPE_PP_NOSLOTS_TAG_POLL example_config \<and>
   message_type other_frame \<noteq> MSG_TYPE_PP_NOSLOTS_ANC_FINAL example_config \<and>
   dw1000_tag_rxcallback example_config rx_okay 0x5000 other_frame listening_entry =
     listening_entry\<lparr>hw_trace := hw_trace listening_entry @
       [Dwt_readrxtimestamp, Dwt_readrxdata 40]\<rparr>"
proof -
  have h1: "event rx_okay = DWT_SIG_RX_OKAY" by (simp add: rx_okay_def)
  have h2: "message_type other_frame \<noteq> MSG_TYPE_PP_NOSLOTS_TAG_POLL example_config"
    by (simp add: other_frame_def anc_final_frame_def example_config_def)
  have h3: "message_type other_frame \<noteq> MSG_TYPE_PP_NOSLOTS_ANC_FINAL example_config"
    by (simp add: other_frame_def anc_final_frame_def example_config_def)
  show ?thesis
    using rx_other_message_type_ignored [OF h1 h2 h3, of "0x5000" listening_entry] h1 h2 h3
    by (simp add: example_config_def rx_okay_def)
qed

subsection \<open>C9: the format of the stored timestamps\<close>

text \<open>
  C9: the send time that \<^verbatim>\<open>send_poll\<close> stores in the slot of the current subsequence is
  the clock reading plus the margin for the packet length, with the lowest bit cleared,
  shifted left by 8 bits into a 64-bit value: its low byte is zero, and as a number it is
  256 times the even part of the sum taken modulo \<open>2^32\<close>. The addition wraps; no
  clock reading makes \<^verbatim>\<open>send_poll\<close> fail. Likewise the transmit time an anchor declares is
  stored shifted left by 8 bits: 256 times the 32-bit value, low byte zero.
\<close>

theorem timestamps_shifted_left_8:
  assumes "unat (ranging_broadcast_ss_num s) < length (ranging_broadcast_ss_send_times s)"
  shows "(\<exists>s'. send_poll cfg systime s = Inr s' \<and>
           ranging_broadcast_ss_send_times s' ! unat (ranging_broadcast_ss_num s) =
             push_bit 8 (ucast ((systime + DW_DELAY_FROM_PKT_LEN cfg (sizeof_pp_tag_poll cfg))
                                 AND 0xFFFFFFFE) :: uint64_t) \<and>
           ranging_broadcast_ss_send_times s' ! unat (ranging_broadcast_ss_num s) AND 0xFF = 0 \<and>
           unat (ranging_broadcast_ss_send_times s' ! unat (ranging_broadcast_ss_num s)) =
             256 * (2 * (((unat systime + unat (DW_DELAY_FROM_PKT_LEN cfg (sizeof_pp_tag_poll cfg)))
                           mod 2 ^ 32) div 2))) \<and>
         (event rxd = DWT_SIG_RX_OKAY \<and> message_type buf = MSG_TYPE_PP_NOSLOTS_ANC_FINAL cfg \<and>
          unat (anchor_response_count r) < MAX_NUM_ANCHOR_RESPONSES cfg \<and>
          unat (anchor_response_count r) < length (anchor_response_times r) \<longrightarrow>
          anc_final_tx_timestamp
            (anchor_response_times (dw1000_tag_rxcallback cfg rxd rx_ts buf r) !
               unat (anchor_response_count r)) =
            push_bit 8 (ucast (dw_time_sent buf) :: uint64_t) \<and>
          anc_final_tx_timestamp
            (anchor_response_times (dw1000_tag_rxcallback cfg rxd rx_ts buf r) !
               unat (anchor_response_count r)) AND 0xFF = 0 \<and>
          unat (anc_final_tx_timestamp
            (anchor_response_times (dw1000_tag_rxcallback cfg rxd rx_ts buf r) !
               unat (anchor_response_count r))) = 256 * unat (dw_time_sent buf))"
proof -
  obtain s' where s': "send_poll cfg systime s = Inr s'"
     "ranging_broadcast_ss_send_times s' =
             (ranging_broadcast_ss_send_times s)[unat (ranging_broadcast_ss_num s) := send_time cfg systime]"
    using send_poll_in_range[OF assms] by blast
  have slot: "ranging_broadcast_ss_send_times s' ! unat (ranging_broadcast_ss_num s) = send_time cfg systime"
    using assms s'(2) by simp
  have tx: "\<exists>s'. send_poll cfg systime s = Inr s' \<and>
           ranging_broadcast_ss_send_times s' ! unat (ranging_broadcast_ss_num s) =
             push_bit 8 (ucast ((systime + DW_DELAY_FROM_PKT_LEN cfg (sizeof_pp_tag_poll cfg))
                                 AND 0xFFFFFFFE) :: uint64_t) \<and>
           ranging_broadcast_ss_send_times s' ! unat (ranging_broadcast_ss_num s) AND 0xFF = 0 \<and>
           unat (ranging_broadcast_ss_send_times s' ! unat (ranging_broadcast_ss_num s)) =
             256 * (2 * (((unat systime + unat (DW_DELAY_FROM_PKT_LEN cfg (sizeof_pp_tag_poll cfg)))
                           mod 2 ^ 32) div 2))"
  proof (intro exI conjI)
    show "send_poll cfg systime s = Inr s'" by (rule s'(1))
    show "ranging_broadcast_ss_send_times s' ! unat (ranging_broadcast_ss_num s) =
             push_bit 8 (ucast ((systime + DW_DELAY_FROM_PKT_LEN cfg (sizeof_pp_tag_poll cfg))
                                 AND 0xFFFFFFFE) :: uint64_t)"
      by (simp only: slot send_time_def delay_time_def)
    show "ranging_broadcast_ss_send_times s' ! unat (ranging_broadcast_ss_num s) AND 0xFF = 0"
      by (simp only: slot send_time_def low_byte_zero)
    show "unat (ranging_broadcast_ss_send_times s' ! unat (ranging_broadcast_ss_num s)) =
             256 * (2 * (((unat systime + unat (DW_DELAY_FROM_PKT_LEN cfg (sizeof_pp_tag_poll cfg)))
                           mod 2 ^ 32) div 2))"
      by (simp only: slot unat_send_time unat_delay_time)
  qed
  have rx: "anc_final_tx_timestamp
            (anchor_response_times (dw1000_tag_rxcallback cfg rxd rx_ts buf r) !
               unat (anchor_response_count r)) =
            push_bit 8 (ucast (dw_time_sent buf) :: uint64_t)"
    if "event rxd = DWT_SIG_RX_OKAY" "message_type buf = MSG_TYPE_PP_NOSLOTS_ANC_FINAL cfg"
       "unat (anchor_response_count r) < MAX_NUM_ANCHOR_RESPONSES cfg"
       "unat (anchor_response_count r) < length (anchor_response_times r)"
    using that by (simp add: dw1000_tag_rxcallback_def hw_def Let_def store_anc_final_def)
  have rx':
    "event rxd = DWT_SIG_RX_OKAY \<and> message_type buf = MSG_TYPE_PP_NOSLOTS_ANC_FINAL cfg \<and>
          unat (anchor_response_count r) < MAX_NUM_ANCHOR_RESPONSES cfg \<and>
          unat (anchor_response_count r) < length (anchor_response_times r) \<longrightarrow>
          anc_final_tx_timestamp
            (anchor_response_times (dw1000_tag_rxcallback cfg rxd rx_ts buf r) !
               unat (anchor_response_count r)) =
            push_bit 8 (ucast (dw_time_sent buf) :: uint64_t) \<and>
          anc_final_tx_timestamp
            (anchor_response_times (dw1000_tag_rxcallback cfg rxd rx_ts buf r) !
               unat (anchor_response_count r)) AND 0xFF = 0 \<and>
          unat (anc_final_tx_timestamp
            (anchor_response_times (dw1000_tag_rxcallback cfg rxd rx_ts buf r) !
               unat (anchor_response_count r))) = 256 * unat (dw_time_sent buf)"
  proof (intro impI)
    assume h: "event rxd = DWT_SIG_RX_OKAY \<and> message_type buf = MSG_TYPE_PP_NOSLOTS_ANC_FINAL cfg \<and>
          unat (anchor_response_count r) < MAX_NUM_ANCHOR_RESPONSES cfg \<and>
          unat (anchor_response_count r) < length (anchor_response_times r)"
    have eq: "anc_final_tx_timestamp
            (anchor_response_times (dw1000_tag_rxcallback cfg rxd rx_ts buf r) !
               unat (anchor_response_count r)) =
            push_bit 8 (ucast (dw_time_sent buf) :: uint64_t)"
      using h rx by blast
    show "anc_final_tx_timestamp
            (anchor_response_times (dw1000_tag_rxcallback cfg rxd rx_ts buf r) !
               unat (anchor_response_count r)) =
            push_bit 8 (ucast (dw_time_sent buf) :: uint64_t) \<and>
          anc_final_tx_timestamp
            (anchor_response_times (dw1000_tag_rxcallback cfg rxd rx_ts buf r) !
               unat (anchor_response_count r)) AND 0xFF = 0 \<and>
          unat (anc_final_tx_timestamp
            (anchor_response_times (dw1000_tag_rxcallback cfg rxd rx_ts buf r) !
               unat (anchor_response_count r))) = 256 * unat (dw_time_sent buf)"
      unfolding eq by (intro conjI refl low_byte_zero unat_shift8)
  qed
  show ?thesis
    using tx rx' by (rule conjI)
qed

theorem timestamps_shifted_left_8_witness:
  "unat (ranging_broadcast_ss_num started_tag) < length (ranging_broadcast_ss_send_times started_tag) \<and>
   outcome (\<lambda>s'. ranging_broadcast_ss_send_times s' ! 0)
     (send_poll example_config 0xFFFFFFFF started_tag) = Some 0xFE00 \<and>
   anc_final_tx_timestamp
     (anchor_response_times
        (dw1000_tag_rxcallback example_config rx_okay 0x5000 anc_final_frame
           (initial_tag example_config)) ! 0) = 0xFFFFFFFF00"
proof -
  have ss: "ranging_broadcast_ss_num started_tag = 0"
    and len: "length (ranging_broadcast_ss_send_times started_tag) = 3"
    by (simp_all add: started_tag_def dw1000_tag_start_ranging_event_def timer_start_def hw_def
        example_config_def)
  have h: "unat (ranging_broadcast_ss_num started_tag) < length (ranging_broadcast_ss_send_times started_tag)"
    by (simp add: ss len)
  have r: "event rx_okay = DWT_SIG_RX_OKAY \<and>
      message_type anc_final_frame = MSG_TYPE_PP_NOSLOTS_ANC_FINAL example_config \<and>
      unat (anchor_response_count (initial_tag example_config)) < MAX_NUM_ANCHOR_RESPONSES example_config \<and>
      unat (anchor_response_count (initial_tag example_config)) <
        length (anchor_response_times (initial_tag example_config))"
    and c0: "unat (anchor_response_count (initial_tag example_config)) = 0"
    by (simp_all add: rx_okay_def anc_final_frame_def example_config_def initial_tag_def)
  note t = timestamps_shifted_left_8 [OF h, where cfg = example_config and systime = "0xFFFFFFFF"
      and rxd = rx_okay and buf = anc_final_frame and r = "initial_tag example_config"
      and rx_ts = "0x5000"]
  from t obtain s' where s': "send_poll example_config 0xFFFFFFFF started_tag = Inr s'"
    "ranging_broadcast_ss_send_times s' ! unat (ranging_broadcast_ss_num started_tag) =
       push_bit 8 (ucast ((0xFFFFFFFF +
         DW_DELAY_FROM_PKT_LEN example_config (sizeof_pp_tag_poll example_config))
           AND 0xFFFFFFFE :: uint32_t) :: uint64_t)"
    by blast
  have a: "outcome (\<lambda>s'. ranging_broadcast_ss_send_times s' ! 0)
     (send_poll example_config 0xFFFFFFFF started_tag) = Some 0xFE00"
    using s' by (simp add: outcome_def ss example_config_def)
  have b: "anc_final_tx_timestamp
     (anchor_response_times
        (dw1000_tag_rxcallback example_config rx_okay 0x5000 anc_final_frame
           (initial_tag example_config)) ! 0) = 0xFFFFFFFF00"
    using t r by (simp add: c0 anc_final_frame_def)
  show ?thesis using h a b by (intro conjI)
qed

subsection \<open>C10: the receive callback does not look at the tag state\<close>

text \<open>
  C10: whatever the tag state is, a well-received \<^verbatim>\<open>ANC_FINAL\<close> packet that finds room in
  the collection is stored in the slot the response count points to, and the response
  count is incremented; the tag state stays what it was.
\<close>

theorem rx_anc_final_stored_in_any_state:
  assumes "event rxd = DWT_SIG_RX_OKAY"
    and "message_type buf = MSG_TYPE_PP_NOSLOTS_ANC_FINAL cfg"
    and "unat (anchor_response_count s) < MAX_NUM_ANCHOR_RESPONSES cfg"
  shows "dw1000_tag_rxcallback cfg rxd rx_ts buf (s\<lparr>tag_state := st\<rparr>) =
      s\<lparr>tag_state := st,
        anchor_response_times :=
          (anchor_response_times s)
            [unat (anchor_response_count s) :=
               \<lparr>anchor_addr = take 8 (header_sourceAddr buf),
                tag_poll_TOAs = TOAs buf,
                anc_final_tx_timestamp = push_bit 8 (ucast (dw_time_sent buf)),
                anc_final_rx_timestamp = rx_ts\<rparr>],
        anchor_response_count := anchor_response_count s + 1,
        hw_trace := hw_trace s @
          [Dwt_readrxtimestamp,
           Dwt_readrxdata (min (DW1000_TAG_MAX_RX_PKT_LEN cfg) (unat (datalength rxd)))]\<rparr>"
  using assms by (simp add: dw1000_tag_rxcallback_def hw_def Let_def store_anc_final_eq)

theorem rx_anc_final_stored_in_any_state_witness:
  "event rx_okay = DWT_SIG_RX_OKAY \<and>
   message_type anc_final_frame = MSG_TYPE_PP_NOSLOTS_ANC_FINAL example_config \<and>
   unat (anchor_response_count (initial_tag example_config)) <
     MAX_NUM_ANCHOR_RESPONSES example_config \<and>
   anchor_response_count
     (dw1000_tag_rxcallback example_config rx_okay 0x5000 anc_final_frame
        ((initial_tag example_config)\<lparr>tag_state := TSTATE_IDLE\<rparr>)) = 1 \<and>
   tag_state
     (dw1000_tag_rxcallback example_config rx_okay 0x5000 anc_final_frame
        ((initial_tag example_config)\<lparr>tag_state := TSTATE_IDLE\<rparr>)) = TSTATE_IDLE \<and>
   anchor_response_times
     (dw1000_tag_rxcallback example_config rx_okay 0x5000 anc_final_frame
        ((initial_tag example_config)\<lparr>tag_state := TSTATE_IDLE\<rparr>)) =
     [\<lparr>anchor_addr = [1, 2, 3, 4, 5, 6, 7, 8], tag_poll_TOAs = [0x1000, 0x2000, 0x3000],
       anc_final_tx_timestamp = 0xFFFFFFFF00, anc_final_rx_timestamp = 0x5000\<rparr>,
      zero_response example_config]"
proof -
  have h1: "event rx_okay = DWT_SIG_RX_OKAY" by (simp add: rx_okay_def)
  have h2: "message_type anc_final_frame = MSG_TYPE_PP_NOSLOTS_ANC_FINAL example_config"
    by (simp add: anc_final_frame_def example_config_def)
  have h3: "unat (anchor_response_count (initial_tag example_config)) <
     MAX_NUM_ANCHOR_RESPONSES example_config"
    by (simp add: initial_tag_def example_config_def)
  show ?thesis
    using rx_anc_final_stored_in_any_state [OF h1 h2 h3, of "0x5000" TSTATE_IDLE] h1 h2 h3
    by (simp add: initial_tag_def example_config_def anc_final_frame_def replicate_2)
qed

end
